theory Spec2Isabelle
  imports Main
begin

section \<open>The exam attempt screen (frontend/src/screens/ExamLayout.tsx)\<close>

text \<open>
  The React component \<open>ExamLayout\<close> is modelled as a state machine. Its state is the
  record of its \<open>useState\<close> cells; each handler and each effect is a function on that
  record; the asynchronous handlers are cut at the \<open>await\<close> of their request, and the
  answer of the server is an event of its own. Events are handled one at a time: the
  handler runs against the state of the latest render, then the effects run.
  Numbers are integers, durations whole minutes.
\<close>

subsection \<open>Data model\<close>

datatype QuestionStatus = notVisited | notAnswered | answered | marked | answeredMarked

text \<open>
  \<open>type Question = { id, text, options, image_url? }\<close>.
\<close>

record Question =
  qid :: nat
  qtext :: string
  qoptions :: "string list"
  image_url :: "string option"

text \<open>
  \<open>type QuestionState = { selectedOptionIndex: number | null, status: QuestionStatus }\<close>.
  The handlers build their objects by spreading \<open>next[currentIndex]\<close>, which is
  \<open>undefined\<close> past the end of the array; the object then lacks the properties that
  the handler does not assign. A missing \<open>status\<close> is \<open>None\<close> here. For the selection
  the code treats \<open>null\<close> and \<open>undefined\<close> alike (\<open>!== null && !== undefined\<close>), both
  are \<open>None\<close>.
\<close>

record QuestionState =
  selectedOptionIndex :: "nat option"
  status :: "QuestionStatus option"

record StudentDetails =
  sname :: string
  rollNumber :: string
  className :: string
  section_name :: string

subsection \<open>JavaScript arrays\<close>

text \<open>
  An array is a list of cells, \<open>None\<close> for a hole or \<open>undefined\<close>. Reading past the
  end gives \<open>undefined\<close>; assigning past the end extends the array with holes.
\<close>

definition js_get :: "'a option list \<Rightarrow> nat \<Rightarrow> 'a option" where
  "js_get xs i = (if i < length xs then xs ! i else None)"

definition js_set :: "'a option list \<Rightarrow> nat \<Rightarrow> 'a \<Rightarrow> 'a option list" where
  "js_set xs i v =
     (if i < length xs then xs[i := Some v]
      else xs @ replicate (i - length xs) None @ [Some v])"

text \<open>\<open>{ ...x }\<close>: the spread of \<open>undefined\<close> is the empty object.\<close>

definition spread :: "QuestionState option \<Rightarrow> QuestionState" where
  "spread c = (case c of
       None \<Rightarrow> \<lparr>selectedOptionIndex = None, status = None\<rparr>
     | Some q \<Rightarrow> q)"

text \<open>The status of question \<open>i\<close> as the palette reads it: \<open>questionState[index]?.status\<close>.\<close>

definition status_at :: "QuestionState option list \<Rightarrow> nat \<Rightarrow> QuestionStatus option" where
  "status_at qs i = (case js_get qs i of None \<Rightarrow> None | Some q \<Rightarrow> status q)"

definition selection_at :: "QuestionState option list \<Rightarrow> nat \<Rightarrow> nat option" where
  "selection_at qs i = (case js_get qs i of None \<Rightarrow> None | Some q \<Rightarrow> selectedOptionIndex q)"

subsection \<open>The question state machine\<close>

text \<open>
  The functions passed to \<open>setQuestionState\<close>, with the \<open>currentIndex\<close> of the render
  as a parameter.
\<close>

definition select_update :: "nat \<Rightarrow> nat \<Rightarrow> QuestionState option list \<Rightarrow> QuestionState option list" where
  "select_update currentIndex optionIndex prev =
     (let current = (spread (js_get prev currentIndex))\<lparr>selectedOptionIndex := Some optionIndex\<rparr>;
          current = (if status current = Some notVisited \<or> status current = Some notAnswered
                     then current\<lparr>status := Some answered\<rparr> else current)
      in js_set prev currentIndex current)"

definition visit_cell :: "nat \<Rightarrow> QuestionState option list \<Rightarrow> QuestionState option list" where
  "visit_cell i next =
     (case js_get next i of
        None \<Rightarrow> next
      | Some q \<Rightarrow> if status q = Some notVisited
                  then js_set next i (q\<lparr>status := Some notAnswered\<rparr>) else next)"

definition move_update :: "nat \<Rightarrow> nat \<Rightarrow> QuestionState option list \<Rightarrow> QuestionState option list" where
  "move_update currentIndex index prev = visit_cell index (visit_cell currentIndex prev)"

definition clear_update :: "nat \<Rightarrow> QuestionState option list \<Rightarrow> QuestionState option list" where
  "clear_update currentIndex prev =
     js_set prev currentIndex
       ((spread (js_get prev currentIndex))\<lparr>selectedOptionIndex := None, status := Some notAnswered\<rparr>)"

definition save_mark_update :: "nat \<Rightarrow> QuestionState option list \<Rightarrow> QuestionState option list" where
  "save_mark_update currentIndex prev =
     js_set prev currentIndex ((spread (js_get prev currentIndex))\<lparr>status := Some answeredMarked\<rparr>)"

definition mark_update :: "nat \<Rightarrow> QuestionState option list \<Rightarrow> QuestionState option list" where
  "mark_update currentIndex prev =
     (let current = spread (js_get prev currentIndex);
          current = (if selectedOptionIndex current \<noteq> None
                     then current\<lparr>status := Some answeredMarked\<rparr>
                     else current\<lparr>status := Some marked\<rparr>)
      in js_set prev currentIndex current)"


subsection \<open>Session state\<close>

record Result =
  total_score :: int
  total_questions :: nat
  attempted :: nat
  correct :: nat
  wrong :: nat
  not_attempted :: nat

text \<open>One entry of the \<open>answers\<close> array of the submit body; \<open>selected_option\<close> is 1-based.\<close>

record Answer =
  question_id :: nat
  selected_option :: "nat option"

text \<open>
  The requests the component sends to the server. A submit request is tagged with the
  code path that sent it: \<open>Manual\<close> for \<open>handleSubmit\<close>, \<open>Auto\<close> for the time-expiry
  effect.
\<close>

datatype origin = Manual | Auto

datatype request =
    CreateAttemptReq StudentDetails
  | SubmitReq origin nat "Answer list"
  | ResultsReq nat
  | FullscreenExitReq nat

text \<open>
  The \<open>useState\<close> cells of \<open>ExamLayout\<close> (the display-only \<open>examMeta\<close> apart), and
  what the component shares with its environment: whether the document is in fullscreen
  (\<open>document.fullscreenElement\<close> and its prefixed variants), the local flag
  \<open>isHandlingExit\<close> of the fullscreen tracking effect, the requests sent so far, in
  order, and the submit requests that have not been answered yet.
\<close>

record session =
  loading :: bool
  error :: "string option"
  examTitle :: string
  studentDetails :: "StudentDetails option"
  questions :: "Question list"
  currentIndex :: nat
  questionState :: "QuestionState option list"
  timeRemaining :: int
  timeOver :: bool
  attemptId :: "nat option"
  submitted :: bool
  submitting :: bool
  isFullscreen :: bool
  results :: "Result option"
  docFullscreen :: bool
  isHandlingExit :: bool
  outbox :: "request list"
  pending :: "(origin \<times> nat) list"

definition init_session :: session where
  "init_session =
     \<lparr>loading = True, error = None, examTitle = [], studentDetails = None, questions = [],
      currentIndex = 0, questionState = [], timeRemaining = 0, timeOver = False,
      attemptId = None, submitted = False, submitting = False, isFullscreen = False,
      results = None, docFullscreen = False, isHandlingExit = False, outbox = [],
      pending = []\<rparr>"

text \<open>JavaScript truthiness of \<open>attemptId: number | null\<close> and of \<open>error: string | null\<close>.\<close>

definition truthy_id :: "nat option \<Rightarrow> bool" where
  "truthy_id a = (case a of None \<Rightarrow> False | Some n \<Rightarrow> n \<noteq> 0)"

definition truthy_str :: "string option \<Rightarrow> bool" where
  "truthy_str e = (case e of None \<Rightarrow> False | Some m \<Rightarrow> m \<noteq> [])"

subsection \<open>Loading the exam and starting the attempt\<close>

record ExamData =
  title :: string
  subject :: string
  duration_minutes :: int
  exam_questions :: "Question list"

datatype exam_response = ExamFailed string | ExamOk ExamData

text \<open>
  \<open>fetchExam\<close>, run once when the component mounts, with the answer of the server as a
  parameter. It stores the questions and sets the remaining time to the whole duration;
  it starts no attempt.
\<close>

definition fetchExam :: "exam_response \<Rightarrow> session \<Rightarrow> session" where
  "fetchExam resp s =
     (case resp of
        ExamOk d \<Rightarrow>
          s\<lparr>error := None, examTitle := title d, questions := exam_questions d,
            timeRemaining := duration_minutes d * 60, loading := False\<rparr>
      | ExamFailed msg \<Rightarrow> s\<lparr>error := Some msg, loading := False\<rparr>)"

text \<open>
  The answer to \<open>POST /attempts\<close>: the fetch throws, the status is not ok (with the
  message taken from the body or the status line), or the body is read and carries an
  \<open>id\<close> or none.
\<close>

datatype attempt_response =
    AttemptFetchFailed
  | AttemptNotOk string
  | AttemptCreated "nat option"

definition initialState :: "Question list \<Rightarrow> QuestionState option list" where
  "initialState qs =
     map (\<lambda>index. Some \<lparr>selectedOptionIndex = None,
                           status = Some (if index = 0 then notAnswered else notVisited)\<rparr>)
         [0..<length qs]"

definition handleStudentDetailsSubmit ::
    "StudentDetails \<Rightarrow> attempt_response \<Rightarrow> session \<Rightarrow> session" where
  "handleStudentDetailsSubmit details resp s =
     (let s = s\<lparr>error := None, outbox := outbox s @ [CreateAttemptReq details]\<rparr> in
      case resp of
        AttemptFetchFailed \<Rightarrow>
          s\<lparr>error := Some ''Cannot connect to server. Please make sure the backend server is running on http://127.0.0.1:4000''\<rparr>
      | AttemptNotOk msg \<Rightarrow> s\<lparr>error := Some msg\<rparr>
      | AttemptCreated i \<Rightarrow>
          if \<not> truthy_id i then s\<lparr>error := Some ''Failed to get attempt ID from server''\<rparr>
          else s\<lparr>attemptId := i, studentDetails := Some details,
                 questionState := initialState (questions s), currentIndex := 0\<rparr>)"

subsection \<open>Answering and navigating\<close>

definition handleSelectOption :: "nat \<Rightarrow> session \<Rightarrow> session" where
  "handleSelectOption optionIndex s =
     s\<lparr>questionState := select_update (currentIndex s) optionIndex (questionState s)\<rparr>"

definition moveToQuestion :: "nat \<Rightarrow> session \<Rightarrow> session" where
  "moveToQuestion index s =
     s\<lparr>questionState := move_update (currentIndex s) index (questionState s),
       currentIndex := index\<rparr>"

text \<open>
  \<open>currentIndex < questions.length - 1\<close>, on integers: \<open>questions.length - 1\<close> is \<open>-1\<close>
  for an exam without questions.
\<close>

definition not_last :: "session \<Rightarrow> bool" where
  "not_last s = (int (currentIndex s) < int (length (questions s)) - 1)"

definition handleSaveAndNext :: "session \<Rightarrow> session" where
  "handleSaveAndNext s = (if not_last s then moveToQuestion (currentIndex s + 1) s else s)"

definition handleClear :: "session \<Rightarrow> session" where
  "handleClear s = s\<lparr>questionState := clear_update (currentIndex s) (questionState s)\<rparr>"

definition handleSaveAndMarkForReview :: "session \<Rightarrow> session" where
  "handleSaveAndMarkForReview s =
     s\<lparr>questionState := save_mark_update (currentIndex s) (questionState s)\<rparr>"

text \<open>
  Both \<open>setQuestionState\<close> updaters of \<open>handleMarkForReviewAndNext\<close> use the
  \<open>currentIndex\<close> of the render the handler belongs to, and run in order.
\<close>

definition handleMarkForReviewAndNext :: "session \<Rightarrow> session" where
  "handleMarkForReviewAndNext s =
     (let s' = s\<lparr>questionState := mark_update (currentIndex s) (questionState s)\<rparr>
      in if not_last s
         then s'\<lparr>questionState := move_update (currentIndex s) (currentIndex s + 1) (questionState s'),
                 currentIndex := currentIndex s + 1\<rparr>
         else s')"

text \<open>The Back and Next buttons: \<open>Math.max(0, currentIndex - 1)\<close> and
  \<open>Math.min(questions.length - 1, currentIndex + 1)\<close>. The buttons are rendered only
  with a current question, so \<open>questions.length - 1\<close> is not negative there.\<close>

definition handleBack :: "session \<Rightarrow> session" where
  "handleBack s = moveToQuestion (currentIndex s - 1) s"

definition handleNext :: "session \<Rightarrow> session" where
  "handleNext s = moveToQuestion (min (length (questions s) - 1) (currentIndex s + 1)) s"

subsection \<open>The clock\<close>

text \<open>
  The interval of the countdown effect exists while \<open>timeRemaining > 0\<close> and neither
  \<open>timeOver\<close> nor \<open>submitted\<close> holds; nothing else is asked, no attempt in particular.
\<close>

definition timer_running :: "session \<Rightarrow> bool" where
  "timer_running s = (\<not> (timeRemaining s \<le> 0 \<or> timeOver s \<or> submitted s))"

definition tick :: "session \<Rightarrow> session" where
  "tick s =
     (if timer_running s
      then s\<lparr>timeRemaining := (let newTime = timeRemaining s - 1
                                in if newTime < 0 then 0 else newTime)\<rparr>
      else s)"

subsection \<open>Submission\<close>

text \<open>\<open>questions.map((q, index) => ...)\<close>: the 0-based selection becomes 1-based.\<close>

definition build_answers :: "Question list \<Rightarrow> QuestionState option list \<Rightarrow> Answer list" where
  "build_answers qs qstate =
     map (\<lambda>(index, q). \<lparr>question_id = qid q,
                          selected_option = (case selection_at qstate index of
                                               None \<Rightarrow> None | Some k \<Rightarrow> Some (k + 1))\<rparr>)
         (List.enumerate 0 qs)"

text \<open>
  The time-expiry effect up to its \<open>await fetch\<close>: it sets \<open>timeOver\<close> and sends the
  submit request.
\<close>

definition autoSubmit_effect :: "session \<Rightarrow> session" where
  "autoSubmit_effect s =
     (if timeRemaining s = 0 \<and> \<not> timeOver s \<and> \<not> submitted s \<and> truthy_id (attemptId s)
      then (case attemptId s of
              None \<Rightarrow> s
            | Some aid \<Rightarrow>
                s\<lparr>timeOver := True,
                  outbox := outbox s @ [SubmitReq Auto aid (build_answers (questions s) (questionState s))],
                  pending := pending s @ [(Auto, aid)]\<rparr>)
      else s)"

text \<open>
  \<open>handleSubmit\<close> up to its \<open>await fetch\<close>; \<open>confirmed\<close> is the answer to the
  confirmation dialog.
\<close>

definition handleSubmit :: "bool \<Rightarrow> session \<Rightarrow> session" where
  "handleSubmit confirmed s =
     (if \<not> truthy_id (attemptId s)
      then s\<lparr>error := Some ''Attempt not started. Please refresh the page and try again.''\<rparr>
      else if submitted s then s
      else if \<not> confirmed then s
      else (case attemptId s of
              None \<Rightarrow> s
            | Some aid \<Rightarrow>
                s\<lparr>submitting := True, error := None,
                  outbox := outbox s @ [SubmitReq Manual aid (build_answers (questions s) (questionState s))],
                  pending := pending s @ [(Manual, aid)]\<rparr>))"

text \<open>
  The answer to a submit request: ok (followed by the fetch of the results, which gives
  a result or fails), not ok, or the fetch throws.
\<close>

datatype submit_response =
    SubmitOk "Result option"
  | SubmitNotOk string
  | SubmitFetchFailed string

definition fetch_results :: "nat \<Rightarrow> Result option \<Rightarrow> session \<Rightarrow> session" where
  "fetch_results aid r s =
     (let s = s\<lparr>outbox := outbox s @ [ResultsReq aid]\<rparr>
      in case r of None \<Rightarrow> s | Some x \<Rightarrow> s\<lparr>results := Some x\<rparr>)"

text \<open>The rest of \<open>autoSubmit\<close>, after the answer: failures are only logged.\<close>

definition autoSubmit_resume :: "nat \<Rightarrow> submit_response \<Rightarrow> session \<Rightarrow> session" where
  "autoSubmit_resume aid resp s =
     (case resp of
        SubmitOk r \<Rightarrow> fetch_results aid r (s\<lparr>submitted := True\<rparr>)
      | SubmitNotOk msg \<Rightarrow> s
      | SubmitFetchFailed msg \<Rightarrow> s)"

text \<open>The rest of \<open>handleSubmit\<close>, after the answer, with its \<open>catch\<close> and \<open>finally\<close>.\<close>

definition handleSubmit_resume :: "nat \<Rightarrow> submit_response \<Rightarrow> session \<Rightarrow> session" where
  "handleSubmit_resume aid resp s =
     (case resp of
        SubmitOk r \<Rightarrow> (fetch_results aid r (s\<lparr>submitted := True\<rparr>))\<lparr>submitting := False\<rparr>
      | SubmitNotOk msg \<Rightarrow> s\<lparr>error := Some msg, submitting := False\<rparr>
      | SubmitFetchFailed msg \<Rightarrow> s\<lparr>error := Some msg, submitting := False\<rparr>)"


subsection \<open>Fullscreen proctoring\<close>

text \<open>
  A call of \<open>requestFullscreen\<close> that the browser grants: the document enters
  fullscreen and \<open>isFullscreen\<close> is set. A call that is refused changes no state and
  schedules the next one.
\<close>

definition requestFullscreen_granted :: "session \<Rightarrow> session" where
  "requestFullscreen_granted s = s\<lparr>docFullscreen := True, isFullscreen := True\<rparr>"

text \<open>
  \<open>exitFullscreen\<close>: \<open>document.exitFullscreen()\<close> rejects when the document is not in
  fullscreen, and the \<open>catch\<close> only logs; then \<open>isFullscreen\<close> keeps its value.
\<close>

definition exitFullscreen :: "session \<Rightarrow> session" where
  "exitFullscreen s =
     (if docFullscreen s then s\<lparr>docFullscreen := False, isFullscreen := False\<rparr> else s)"

text \<open>The guard of the two fullscreen effects: an attempt is in progress.\<close>

definition attempt_active :: "session \<Rightarrow> bool" where
  "attempt_active s =
     (studentDetails s \<noteq> None \<and> truthy_id (attemptId s) \<and> \<not> submitted s \<and> \<not> timeOver s)"

text \<open>
  \<open>handleFullscreenChange\<close>, the listener of the four fullscreen-change events, up to
  its \<open>await fetch\<close>. What follows the \<open>await\<close> (the warning dialog and the timer that
  calls \<open>requestFullscreen\<close>) reads and writes no state.
\<close>

definition handleFullscreenChange :: "session \<Rightarrow> session" where
  "handleFullscreenChange s =
     (if \<not> docFullscreen s \<and> isFullscreen s
      then (let s = s\<lparr>isFullscreen := False\<rparr>
            in case attemptId s of
                 None \<Rightarrow> s
               | Some aid \<Rightarrow> if aid \<noteq> 0
                             then s\<lparr>outbox := outbox s @ [FullscreenExitReq aid]\<rparr> else s)
      else if docFullscreen s then s\<lparr>isFullscreen := True\<rparr>
      else s)"

text \<open>The callback of \<open>checkInterval\<close>, every 500 ms.\<close>

definition checkInterval :: "session \<Rightarrow> session" where
  "checkInterval s =
     (if \<not> docFullscreen s \<and> isFullscreen s \<and> \<not> submitted s \<and> \<not> timeOver s
         \<and> \<not> isHandlingExit s
      then handleFullscreenChange (s\<lparr>isHandlingExit := True\<rparr>)
      else s)"

subsection \<open>Effects\<close>

text \<open>
  The effect that requests fullscreen when the exam starts, with dependencies
  \<open>[studentDetails, attemptId, submitted, timeOver]\<close>: in fullscreen already it sets
  \<open>isFullscreen\<close>, otherwise it schedules \<open>requestFullscreen\<close>.
\<close>

definition fullscreen_start_effect :: "session \<Rightarrow> session" where
  "fullscreen_start_effect s =
     (if attempt_active s \<and> docFullscreen s then s\<lparr>isFullscreen := True\<rparr> else s)"

definition start_deps :: "session \<Rightarrow> StudentDetails option \<times> nat option \<times> bool \<times> bool" where
  "start_deps s = (studentDetails s, attemptId s, submitted s, timeOver s)"

text \<open>The effect that leaves fullscreen when the exam is submitted or time is over,
  with dependencies \<open>[submitted, timeOver, isFullscreen]\<close>.\<close>

definition fullscreen_exit_effect :: "session \<Rightarrow> session" where
  "fullscreen_exit_effect s =
     (if (submitted s \<or> timeOver s) \<and> isFullscreen s then exitFullscreen s else s)"

definition exit_deps :: "session \<Rightarrow> bool \<times> bool \<times> bool" where
  "exit_deps s = (submitted s, timeOver s, isFullscreen s)"

text \<open>
  The tracking effect has dependencies
  \<open>[studentDetails, attemptId, submitted, timeOver, isFullscreen]\<close>; when one changes
  it runs again, with a new \<open>isHandlingExit = false\<close>.
\<close>

definition tracking_deps ::
    "session \<Rightarrow> StudentDetails option \<times> nat option \<times> bool \<times> bool \<times> bool" where
  "tracking_deps s = (studentDetails s, attemptId s, submitted s, timeOver s, isFullscreen s)"

text \<open>
  After an event React renders again and runs the effects; \<open>s0\<close> is the state before
  the event. An effect runs when one of its dependencies has changed. The time-expiry
  effect is run whenever its guard holds, which is the same: the guard reads only
  dependencies of the effect and is false once the effect has run.
\<close>

definition rerun_start :: "session \<Rightarrow> session \<Rightarrow> session" where
  "rerun_start s0 s = (if start_deps s \<noteq> start_deps s0 then fullscreen_start_effect s else s)"

definition rerun_exit :: "session \<Rightarrow> session \<Rightarrow> session" where
  "rerun_exit s0 s = (if exit_deps s \<noteq> exit_deps s0 then fullscreen_exit_effect s else s)"

definition rerun_tracking :: "session \<Rightarrow> session \<Rightarrow> session" where
  "rerun_tracking s0 s =
     (if tracking_deps s \<noteq> tracking_deps s0 then s\<lparr>isHandlingExit := False\<rparr> else s)"

definition run_effects :: "session \<Rightarrow> session \<Rightarrow> session" where
  "run_effects s0 s =
     rerun_tracking s0 (rerun_exit s0 (rerun_start s0 (autoSubmit_effect s)))"

subsection \<open>Events\<close>

text \<open>What the component renders, in the order of its \<open>return\<close> statements.\<close>

datatype screen = LoadingScreen | DetailsForm | NoQuestions | ErrorScreen | EndScreen | ExamScreen

definition render :: "session \<Rightarrow> screen" where
  "render s =
     (if loading s then LoadingScreen
      else if studentDetails s = None then DetailsForm
      else if \<not> currentIndex s < length (questions s) then NoQuestions
      else if truthy_str (error s) then ErrorScreen
      else if timeOver s \<or> submitted s then EndScreen
      else ExamScreen)"

text \<open>
  The events of a session: answers of the server, the student's clicks, the one-second
  tick, and the browser's fullscreen changes and notifications.
\<close>

datatype event =
    ExamLoaded exam_response
  | SubmitDetails StudentDetails attempt_response
  | Tick
  | SelectOption nat
  | SaveAndNext
  | Clear
  | SaveAndMarkForReview
  | MarkForReviewAndNext
  | Back
  | Next
  | Palette nat
  | ClickSubmit bool
  | SubmitAnswered origin nat submit_response
  | FullscreenGranted
  | FullscreenLost
  | FullscreenChangeEvent
  | PollFullscreen

text \<open>
  When an event can happen: a control must be rendered and not disabled, an answer
  needs its request, the browser grants only what was requested and loses only the
  fullscreen it has, and the fullscreen listeners exist during an attempt only.
\<close>

fun enabled :: "event \<Rightarrow> session \<Rightarrow> bool" where
  "enabled (ExamLoaded r) s = loading s"
| "enabled (SubmitDetails d r) s = (render s = DetailsForm)"
| "enabled Tick s = True"
| "enabled (SelectOption k) s = (render s = ExamScreen \<and> \<not> timeOver s)"
| "enabled SaveAndNext s = (render s = ExamScreen \<and> \<not> timeOver s)"
| "enabled Clear s = (render s = ExamScreen \<and> \<not> timeOver s)"
| "enabled SaveAndMarkForReview s = (render s = ExamScreen \<and> \<not> timeOver s)"
| "enabled MarkForReviewAndNext s = (render s = ExamScreen \<and> \<not> timeOver s)"
| "enabled Back s = (render s = ExamScreen \<and> \<not> (currentIndex s = 0 \<or> timeOver s))"
| "enabled Next s =
     (render s = ExamScreen \<and> \<not> (int (currentIndex s) = int (length (questions s)) - 1 \<or> timeOver s))"
| "enabled (Palette i) s = (render s = ExamScreen \<and> \<not> timeOver s \<and> i < length (questions s))"
| "enabled (ClickSubmit c) s =
     (render s = ExamScreen \<and> \<not> (submitted s \<or> submitting s \<or> \<not> truthy_id (attemptId s)))"
| "enabled (SubmitAnswered p aid r) s = ((p, aid) \<in> set (pending s))"
| "enabled FullscreenGranted s = (studentDetails s \<noteq> None \<and> truthy_id (attemptId s))"
| "enabled FullscreenLost s = docFullscreen s"
| "enabled FullscreenChangeEvent s = attempt_active s"
| "enabled PollFullscreen s = attempt_active s"

fun handle :: "event \<Rightarrow> session \<Rightarrow> session" where
  "handle (ExamLoaded r) s = fetchExam r s"
| "handle (SubmitDetails d r) s = handleStudentDetailsSubmit d r s"
| "handle Tick s = tick s"
| "handle (SelectOption k) s = handleSelectOption k s"
| "handle SaveAndNext s = handleSaveAndNext s"
| "handle Clear s = handleClear s"
| "handle SaveAndMarkForReview s = handleSaveAndMarkForReview s"
| "handle MarkForReviewAndNext s = handleMarkForReviewAndNext s"
| "handle Back s = handleBack s"
| "handle Next s = handleNext s"
| "handle (Palette i) s = moveToQuestion i s"
| "handle (ClickSubmit c) s = handleSubmit c s"
| "handle (SubmitAnswered Manual aid r) s =
     handleSubmit_resume aid r (s\<lparr>pending := remove1 (Manual, aid) (pending s)\<rparr>)"
| "handle (SubmitAnswered Auto aid r) s =
     autoSubmit_resume aid r (s\<lparr>pending := remove1 (Auto, aid) (pending s)\<rparr>)"
| "handle FullscreenGranted s = requestFullscreen_granted s"
| "handle FullscreenLost s = s\<lparr>docFullscreen := False\<rparr>"
| "handle FullscreenChangeEvent s = handleFullscreenChange s"
| "handle PollFullscreen s = checkInterval s"

text \<open>
  Events are processed one at a time: the handler runs, then the effects. An event
  that cannot happen in a state leaves it as it is.
\<close>

definition step :: "event \<Rightarrow> session \<Rightarrow> session" where
  "step e s = (if enabled e s then run_effects s (handle e s) else s)"

fun run :: "event list \<Rightarrow> session \<Rightarrow> session" where
  "run [] s = s"
| "run (e # es) s = run es (step e s)"

text \<open>The submit requests and the fullscreen-exit reports among the requests sent.\<close>

fun is_submit :: "request \<Rightarrow> bool" where
  "is_submit (SubmitReq p aid as) = True"
| "is_submit r = False"

fun is_auto_submit :: "request \<Rightarrow> bool" where
  "is_auto_submit (SubmitReq Auto aid as) = True"
| "is_auto_submit r = False"


definition submits_sent :: "session \<Rightarrow> nat" where
  "submits_sent s = length (filter is_submit (outbox s))"




subsection \<open>Traces\<close>


text \<open>The guard of the time-expiry effect: the expiry is due and has not fired.\<close>

definition expiry_due :: "session \<Rightarrow> bool" where
  "expiry_due s =
     (timeRemaining s = 0 \<and> \<not> timeOver s \<and> \<not> submitted s \<and> truthy_id (attemptId s))"

text \<open>The events that give the session an attempt id.\<close>

fun creates_attempt :: "event \<Rightarrow> bool" where
  "creates_attempt (SubmitDetails d (AttemptCreated i)) = truthy_id i"
| "creates_attempt e = False"






subsection \<open>A sample session\<close>

definition demo_q1 :: Question where
  "demo_q1 = \<lparr>qid = 11, qtext = ''2 + 2 = ?'', qoptions = [''3'', ''4'', ''5'', ''6''],
              image_url = None\<rparr>"

definition demo_q2 :: Question where
  "demo_q2 = \<lparr>qid = 12, qtext = ''3 * 3 = ?'', qoptions = [''6'', ''7'', ''8'', ''9''],
              image_url = None\<rparr>"

definition demo_exam :: ExamData where
  "demo_exam = \<lparr>title = ''Arithmetic'', subject = ''Maths'', duration_minutes = 1,
                exam_questions = [demo_q1, demo_q2]\<rparr>"

definition demo_student :: StudentDetails where
  "demo_student = \<lparr>sname = ''Asha'', rollNumber = ''17'', className = ''X'',
                   section_name = ''B''\<rparr>"

text \<open>The exam is loaded; the student has not sent the details form yet.\<close>

definition loaded_session :: session where
  "loaded_session = run [ExamLoaded (ExamOk demo_exam)] init_session"

text \<open>The student has sent the form and the server has created attempt 7.\<close>

definition started_session :: session where
  "started_session = run [SubmitDetails demo_student (AttemptCreated (Some 7))] loaded_session"


section \<open>Scoring at submission (AttemptService)\<close>

text \<open>
  Modelled from the spec: the scoring pass of \<open>AttemptService.submit\<close>. The backend
  that implements it is not among the sources, only its callers are. Per the spec a
  question has a correct option, the marks awarded and the marks deducted; an attempt
  has one answer slot per question, in the order of the exam, holding the selected
  option or none; each question is \<open>correct\<close> if the selected option equals the answer
  key and contributes \<open>+marks\<close>, \<open>wrong\<close> if a different option was selected and
  contributes \<open>-negative_marks\<close>, \<open>not_attempted\<close> if no option was selected and
  contributes \<open>0\<close>; the total is the sum over all questions.
\<close>

record AnswerKey =
  key_question :: nat
  correct_option :: nat
  marks :: int
  negative_marks :: int

datatype verdict = Correct | Wrong | NotAttempted

definition judge :: "AnswerKey \<Rightarrow> nat option \<Rightarrow> verdict" where
  "judge q sel =
     (case sel of
        None \<Rightarrow> NotAttempted
      | Some k \<Rightarrow> if k = correct_option q then Correct else Wrong)"

fun score_slots :: "(AnswerKey \<times> nat option) list \<Rightarrow> Result \<Rightarrow> Result" where
  "score_slots [] r = r"
| "score_slots ((q, sel) # slots) r =
     score_slots slots
       (case judge q sel of
          Correct \<Rightarrow> r\<lparr>total_score := total_score r + marks q,
                        attempted := attempted r + 1, correct := correct r + 1\<rparr>
        | Wrong \<Rightarrow> r\<lparr>total_score := total_score r - negative_marks q,
                      attempted := attempted r + 1, wrong := wrong r + 1\<rparr>
        | NotAttempted \<Rightarrow> r\<lparr>not_attempted := not_attempted r + 1\<rparr>)"

definition compute_result :: "(AnswerKey \<times> nat option) list \<Rightarrow> Result" where
  "compute_result slots =
     score_slots slots
       \<lparr>total_score = 0, total_questions = length slots, attempted = 0, correct = 0,
        wrong = 0, not_attempted = 0\<rparr>"

text \<open>What one question adds to the total, in the words of the spec.\<close>

definition contribution :: "AnswerKey \<Rightarrow> nat option \<Rightarrow> int" where
  "contribution q sel =
     (case sel of
        None \<Rightarrow> 0
      | Some k \<Rightarrow> if k = correct_option q then marks q else - negative_marks q)"


text \<open>The example of the spec: two questions, 4 marks each, 1 mark deducted.\<close>

definition key_a :: AnswerKey where
  "key_a = \<lparr>key_question = 11, correct_option = 2, marks = 4, negative_marks = 1\<rparr>"

definition key_b :: AnswerKey where
  "key_b = \<lparr>key_question = 12, correct_option = 4, marks = 4, negative_marks = 1\<rparr>"

section \<open>Properties of the question state machine\<close>

subsection \<open>Arrays and the state updaters\<close>

lemma js_get_set_same: "js_get (js_set xs i v) i = Some v"
  by (simp add: js_get_def js_set_def nth_append)

lemma js_get_set_other: "j \<noteq> i \<Longrightarrow> js_get (js_set xs i v) j = js_get xs j"
  by (auto simp: js_get_def js_set_def nth_append nth_Cons')

lemma js_get_set: "js_get (js_set xs i v) j = (if j = i then Some v else js_get xs j)"
  by (simp add: js_get_set_same js_get_set_other)

lemma status_at_select:
  "status_at (select_update ci v qs) j =
     (if j = ci
      then (if status_at qs ci = Some notVisited \<or> status_at qs ci = Some notAnswered
            then Some answered else status_at qs ci)
      else status_at qs j)"
  by (simp add: status_at_def select_update_def js_get_set spread_def Let_def split: option.splits)

lemma selection_at_select:
  "selection_at (select_update ci v qs) j = (if j = ci then Some v else selection_at qs j)"
  by (simp add: selection_at_def select_update_def js_get_set spread_def Let_def split: option.splits)

lemma status_at_clear:
  "status_at (clear_update ci qs) j = (if j = ci then Some notAnswered else status_at qs j)"
  by (simp add: status_at_def clear_update_def js_get_set)

lemma selection_at_clear:
  "selection_at (clear_update ci qs) j = (if j = ci then None else selection_at qs j)"
  by (simp add: selection_at_def clear_update_def js_get_set)

lemma status_at_save_mark:
  "status_at (save_mark_update ci qs) j = (if j = ci then Some answeredMarked else status_at qs j)"
  by (simp add: status_at_def save_mark_update_def js_get_set)

lemma selection_at_save_mark:
  "selection_at (save_mark_update ci qs) j = selection_at qs j"
  by (simp add: selection_at_def save_mark_update_def js_get_set spread_def split: option.splits)

lemma status_at_mark:
  "status_at (mark_update ci qs) j =
     (if j = ci then (if selection_at qs ci \<noteq> None then Some answeredMarked else Some marked)
      else status_at qs j)"
  by (auto simp: status_at_def selection_at_def mark_update_def js_get_set spread_def Let_def
           split: option.splits)

lemma selection_at_mark:
  "selection_at (mark_update ci qs) j = selection_at qs j"
  by (simp add: selection_at_def mark_update_def js_get_set spread_def Let_def split: option.splits)

lemma status_at_visit:
  "status_at (visit_cell i qs) j =
     (if j = i \<and> status_at qs i = Some notVisited then Some notAnswered else status_at qs j)"
  by (auto simp: status_at_def visit_cell_def js_get_set split: option.splits)

lemma selection_at_visit: "selection_at (visit_cell i qs) j = selection_at qs j"
  by (auto simp: selection_at_def visit_cell_def js_get_set split: option.splits)

lemma status_at_move_notVisited:
  "status_at (move_update ci i qs) j = Some notVisited \<Longrightarrow> status_at qs j = Some notVisited"
  by (auto simp: move_update_def status_at_visit split: if_splits)



section \<open>Properties of the session\<close>

lemmas handler_defs =
  fetchExam_def handleStudentDetailsSubmit_def handleSelectOption_def moveToQuestion_def
  handleSaveAndNext_def handleClear_def handleSaveAndMarkForReview_def
  handleMarkForReviewAndNext_def handleBack_def handleNext_def tick_def handleSubmit_def
  handleSubmit_resume_def autoSubmit_resume_def fetch_results_def
  requestFullscreen_granted_def handleFullscreenChange_def checkInterval_def

subsection \<open>What the effects leave alone\<close>

lemma autoSubmit_effect_frame [simp]:
  "timeRemaining (autoSubmit_effect s) = timeRemaining s"
  "attemptId (autoSubmit_effect s) = attemptId s"
  "submitted (autoSubmit_effect s) = submitted s"
  "studentDetails (autoSubmit_effect s) = studentDetails s"
  "questionState (autoSubmit_effect s) = questionState s"
  "currentIndex (autoSubmit_effect s) = currentIndex s"
  "isFullscreen (autoSubmit_effect s) = isFullscreen s"
  "docFullscreen (autoSubmit_effect s) = docFullscreen s"
  "isHandlingExit (autoSubmit_effect s) = isHandlingExit s"
  by (simp_all add: autoSubmit_effect_def split: option.splits)

lemma autoSubmit_effect_timeOver [simp]:
  "timeOver (autoSubmit_effect s) = (timeOver s \<or> expiry_due s)"
  by (auto simp: autoSubmit_effect_def expiry_due_def truthy_id_def split: option.splits)

lemma autoSubmit_effect_outbox:
  "outbox (autoSubmit_effect s) =
     (if expiry_due s
      then outbox s @ [SubmitReq Auto (the (attemptId s)) (build_answers (questions s) (questionState s))]
      else outbox s)"
  by (auto simp: autoSubmit_effect_def expiry_due_def truthy_id_def split: option.splits)

lemma autoSubmit_effect_pending:
  "pending (autoSubmit_effect s) =
     (if expiry_due s then pending s @ [(Auto, the (attemptId s))] else pending s)"
  by (auto simp: autoSubmit_effect_def expiry_due_def truthy_id_def split: option.splits)

lemma rerun_start_frame [simp]:
  "timeRemaining (rerun_start s0 s) = timeRemaining s"
  "attemptId (rerun_start s0 s) = attemptId s"
  "submitted (rerun_start s0 s) = submitted s"
  "timeOver (rerun_start s0 s) = timeOver s"
  "studentDetails (rerun_start s0 s) = studentDetails s"
  "questionState (rerun_start s0 s) = questionState s"
  "currentIndex (rerun_start s0 s) = currentIndex s"
  "docFullscreen (rerun_start s0 s) = docFullscreen s"
  "isHandlingExit (rerun_start s0 s) = isHandlingExit s"
  "outbox (rerun_start s0 s) = outbox s"
  "pending (rerun_start s0 s) = pending s"
  by (simp_all add: rerun_start_def fullscreen_start_effect_def)

lemma fullscreen_exit_effect_frame [simp]:
  "timeRemaining (fullscreen_exit_effect s) = timeRemaining s"
  "attemptId (fullscreen_exit_effect s) = attemptId s"
  "submitted (fullscreen_exit_effect s) = submitted s"
  "timeOver (fullscreen_exit_effect s) = timeOver s"
  "studentDetails (fullscreen_exit_effect s) = studentDetails s"
  "questionState (fullscreen_exit_effect s) = questionState s"
  "currentIndex (fullscreen_exit_effect s) = currentIndex s"
  "isHandlingExit (fullscreen_exit_effect s) = isHandlingExit s"
  "outbox (fullscreen_exit_effect s) = outbox s"
  "pending (fullscreen_exit_effect s) = pending s"
  by (simp_all add: fullscreen_exit_effect_def exitFullscreen_def)

lemma rerun_exit_frame [simp]:
  "timeRemaining (rerun_exit s0 s) = timeRemaining s"
  "attemptId (rerun_exit s0 s) = attemptId s"
  "submitted (rerun_exit s0 s) = submitted s"
  "timeOver (rerun_exit s0 s) = timeOver s"
  "studentDetails (rerun_exit s0 s) = studentDetails s"
  "questionState (rerun_exit s0 s) = questionState s"
  "currentIndex (rerun_exit s0 s) = currentIndex s"
  "isHandlingExit (rerun_exit s0 s) = isHandlingExit s"
  "outbox (rerun_exit s0 s) = outbox s"
  "pending (rerun_exit s0 s) = pending s"
  by (simp_all add: rerun_exit_def)

lemma rerun_tracking_frame [simp]:
  "timeRemaining (rerun_tracking s0 s) = timeRemaining s"
  "attemptId (rerun_tracking s0 s) = attemptId s"
  "submitted (rerun_tracking s0 s) = submitted s"
  "timeOver (rerun_tracking s0 s) = timeOver s"
  "studentDetails (rerun_tracking s0 s) = studentDetails s"
  "questionState (rerun_tracking s0 s) = questionState s"
  "currentIndex (rerun_tracking s0 s) = currentIndex s"
  "isFullscreen (rerun_tracking s0 s) = isFullscreen s"
  "docFullscreen (rerun_tracking s0 s) = docFullscreen s"
  "outbox (rerun_tracking s0 s) = outbox s"
  "pending (rerun_tracking s0 s) = pending s"
  by (simp_all add: rerun_tracking_def)

lemma run_effects_frame [simp]:
  "timeRemaining (run_effects s0 s) = timeRemaining s"
  "attemptId (run_effects s0 s) = attemptId s"
  "submitted (run_effects s0 s) = submitted s"
  "studentDetails (run_effects s0 s) = studentDetails s"
  "questionState (run_effects s0 s) = questionState s"
  "currentIndex (run_effects s0 s) = currentIndex s"
  by (simp_all add: run_effects_def)

lemma run_effects_timeOver: "timeOver (run_effects s0 s) = (timeOver s \<or> expiry_due s)"
  by (simp add: run_effects_def)

lemma run_effects_outbox: "outbox (run_effects s0 s) = outbox (autoSubmit_effect s)"
  by (simp add: run_effects_def)

lemma run_effects_pending: "pending (run_effects s0 s) = pending (autoSubmit_effect s)"
  by (simp add: run_effects_def)


subsection \<open>What the handlers leave alone\<close>


lemma handle_timeOver [simp]: "timeOver (handle e s) = timeOver s"
proof (cases e)
  case (SubmitAnswered p aid r)
  then show ?thesis
    by (cases p; cases r) (simp_all add: handler_defs Let_def split: option.splits)
next
  case (SubmitDetails d r)
  then show ?thesis by (cases r) (simp_all add: handler_defs Let_def)
next
  case (ExamLoaded r)
  then show ?thesis by (cases r) (simp_all add: handler_defs)
qed (simp_all add: handler_defs Let_def split: option.splits)

lemma handle_auto_submits [simp]:
  "filter is_auto_submit (outbox (handle e s)) = filter is_auto_submit (outbox s)"
proof (cases e)
  case (SubmitAnswered p aid r)
  then show ?thesis
    by (cases p; cases r) (simp_all add: handler_defs Let_def split: option.splits)
next
  case (SubmitDetails d r)
  then show ?thesis by (cases r) (simp_all add: handler_defs Let_def)
next
  case (ExamLoaded r)
  then show ?thesis by (cases r) (simp_all add: handler_defs)
qed (simp_all add: handler_defs Let_def split: option.splits)


lemma render_DetailsForm:
  "render s = DetailsForm \<longleftrightarrow> \<not> loading s \<and> studentDetails s = None"
  by (simp add: render_def)

lemma render_ExamScreen:
  "render s = ExamScreen \<longleftrightarrow>
     \<not> loading s \<and> studentDetails s \<noteq> None \<and> currentIndex s < length (questions s)
     \<and> \<not> truthy_str (error s) \<and> \<not> timeOver s \<and> \<not> submitted s"
  by (simp add: render_def)

lemma step_keeps_details:
  assumes "studentDetails s \<noteq> None"
  shows "studentDetails (step e s) \<noteq> None"
proof (cases e)
  case (SubmitAnswered p aid r)
  with assms show ?thesis
    by (cases p; cases r) (auto simp: step_def handler_defs Let_def split: option.splits)
next
  case (SubmitDetails d r)
  with assms show ?thesis by (auto simp: step_def render_DetailsForm)
next
  case (ExamLoaded r)
  with assms show ?thesis by (cases r) (auto simp: step_def handler_defs)
qed (insert assms, auto simp: step_def handler_defs Let_def split: option.splits)

lemma status_at_updates_notVisited:
  "status_at (select_update ci v qs) j = Some notVisited \<Longrightarrow> status_at qs j = Some notVisited"
  "status_at (clear_update ci qs) j = Some notVisited \<Longrightarrow> status_at qs j = Some notVisited"
  "status_at (save_mark_update ci qs) j = Some notVisited \<Longrightarrow> status_at qs j = Some notVisited"
  "status_at (mark_update ci qs) j = Some notVisited \<Longrightarrow> status_at qs j = Some notVisited"
  by (auto simp: status_at_select status_at_clear status_at_save_mark status_at_mark split: if_splits)

lemma handle_no_revisit:
  assumes "studentDetails s \<noteq> None" "enabled e s"
    and "status_at (questionState (handle e s)) i = Some notVisited"
  shows "status_at (questionState s) i = Some notVisited"
proof (cases e)
  case (SubmitAnswered p aid r)
  with assms show ?thesis
    by (cases p; cases r) (auto simp: handler_defs Let_def split: option.splits)
next
  case (SubmitDetails d r)
  with assms show ?thesis by (auto simp: render_DetailsForm)
next
  case MarkForReviewAndNext
  with assms show ?thesis
    by (auto simp: handler_defs Let_def split: if_splits
             dest!: status_at_move_notVisited status_at_updates_notVisited)
qed (insert assms, auto simp: handler_defs Let_def split: option.splits if_splits exam_response.splits
       dest!: status_at_move_notVisited status_at_updates_notVisited)

lemma step_no_revisit:
  assumes "studentDetails s \<noteq> None"
    and "status_at (questionState (step e s)) i = Some notVisited"
  shows "status_at (questionState s) i = Some notVisited"
  using assms handle_no_revisit [of s e i] by (simp add: step_def split: if_splits)

lemma run_no_revisit:
  "studentDetails s \<noteq> None \<Longrightarrow> status_at (questionState (run es s)) i = Some notVisited
     \<Longrightarrow> status_at (questionState s) i = Some notVisited"
proof (induction es arbitrary: s)
  case Nil
  then show ?case by simp
next
  case (Cons e es)
  from Cons.prems(1) have d: "studentDetails (step e s) \<noteq> None" by (rule step_keeps_details)
  from Cons.prems(2) have "status_at (questionState (run es (step e s))) i = Some notVisited" by simp
  from Cons.IH [OF d this] show ?case using Cons.prems(1) by (rule step_no_revisit [rotated])
qed


lemma status_at_mark_next:
  "status_at (questionState (handleMarkForReviewAndNext s)) (currentIndex s) =
     (if selection_at (questionState s) (currentIndex s) \<noteq> None
      then Some answeredMarked else Some marked)"
  by (simp add: handleMarkForReviewAndNext_def Let_def move_update_def status_at_visit
        status_at_mark)

subsection \<open>Selecting an option\<close>

text \<open>
  C5, as the code has it: \<open>handleSelectOption\<close> records the value as the selected
  option of the current question; a status \<open>notVisited\<close> or \<open>notAnswered\<close> becomes
  \<open>answered\<close>, every other status (\<open>answered\<close>, \<open>marked\<close>, \<open>answeredMarked\<close>) is kept
  as it is, so a \<open>marked\<close> question stays \<open>marked\<close> although it now has an answer;
  no other question changes.
\<close>

theorem handleSelectOption_status:
  "selection_at (questionState (handleSelectOption v s)) j =
     (if j = currentIndex s then Some v else selection_at (questionState s) j)
   \<and> status_at (questionState (handleSelectOption v s)) j =
     (if j = currentIndex s
      then (if status_at (questionState s) j = Some notVisited
               \<or> status_at (questionState s) j = Some notAnswered
            then Some answered else status_at (questionState s) j)
      else status_at (questionState s) j)"
  by (simp add: handleSelectOption_def status_at_select selection_at_select)

text \<open>
  C5 as stated fails: the first question of the sample session is marked for review
  without an answer, the student comes back to it and selects an option; the answer is
  recorded and the status is still \<open>marked\<close>, not \<open>answeredMarked\<close>.
\<close>

theorem handleSelectOption_marked_counterexample:
  "status_at (questionState (run [MarkForReviewAndNext, Back] started_session)) 0 = Some marked
   \<and> selection_at (questionState (run [MarkForReviewAndNext, Back, SelectOption 2] started_session)) 0
       = Some 2
   \<and> status_at (questionState (run [MarkForReviewAndNext, Back, SelectOption 2] started_session)) 0
       \<noteq> Some answeredMarked"
  by code_simp

subsection \<open>Marking for review\<close>

text \<open>
  C6 at the failing input: in the sample session no option is selected on the first
  question, and the button Save and Mark for Review (\<open>handleSaveAndMarkForReview\<close>)
  sets its status to \<open>answeredMarked\<close> all the same, where
  \<open>handleMarkForReviewAndNext\<close> sets \<open>marked\<close>.
\<close>

theorem handleSaveAndMarkForReview_without_selection:
  "selection_at (questionState started_session) 0 = None
   \<and> selection_at (questionState (run [SaveAndMarkForReview] started_session)) 0 = None
   \<and> status_at (questionState (run [SaveAndMarkForReview] started_session)) 0 = Some answeredMarked
   \<and> status_at (questionState (run [MarkForReviewAndNext] started_session)) 0 = Some marked"
  by code_simp

text \<open>Whatever the selection is, Save and Mark for Review gives \<open>answeredMarked\<close> and
  leaves the selection as it is.\<close>

lemma handleSaveAndMarkForReview_status:
  "status_at (questionState (handleSaveAndMarkForReview s)) (currentIndex s) = Some answeredMarked
   \<and> selection_at (questionState (handleSaveAndMarkForReview s)) j
       = selection_at (questionState s) j"
  by (simp add: handleSaveAndMarkForReview_def status_at_save_mark selection_at_save_mark)

subsection \<open>Clearing\<close>

text \<open>
  C7: after \<open>handleSelectOption\<close> followed by \<open>handleClear\<close> the current question has
  status \<open>notAnswered\<close> and no selected option, whatever its status and selection were
  before; \<open>handleClear\<close> alone gives the same, unconditionally.
\<close>

theorem select_then_clear:
  "status_at (questionState (handleClear (handleSelectOption v s))) (currentIndex s) = Some notAnswered
   \<and> selection_at (questionState (handleClear (handleSelectOption v s))) (currentIndex s) = None
   \<and> status_at (questionState (handleClear s)) (currentIndex s) = Some notAnswered
   \<and> selection_at (questionState (handleClear s)) (currentIndex s) = None"
  by (simp add: handleClear_def handleSelectOption_def status_at_clear selection_at_clear)

subsection \<open>No way back to notVisited\<close>

text \<open>
  C8: once the attempt has started (the student details are set), no sequence of
  events, whatever it is made of (selecting, clearing, marking, navigating, ticks,
  submissions, fullscreen changes), sets the status of a question back to
  \<open>notVisited\<close>: a question that is not \<open>notVisited\<close> before the events is not
  \<open>notVisited\<close> after them.
\<close>

theorem status_never_back_to_notVisited:
  assumes "studentDetails s \<noteq> None"
    and "status_at (questionState s) i \<noteq> Some notVisited"
  shows "status_at (questionState (run es s)) i \<noteq> Some notVisited"
  using assms run_no_revisit [of s es i] by blast

theorem status_never_back_to_notVisited_witness:
  "studentDetails started_session \<noteq> None
   \<and> status_at (questionState started_session) 0 \<noteq> Some notVisited
   \<and> status_at (questionState
        (run [SelectOption 1, MarkForReviewAndNext, Clear, Tick, Palette 0, Clear, SaveAndNext]
           started_session)) 0 \<noteq> Some notVisited"
proof -
  have d: "studentDetails started_session \<noteq> None" by code_simp
  have v: "status_at (questionState started_session) 0 \<noteq> Some notVisited" by code_simp
  from d v status_never_back_to_notVisited [OF d v] show ?thesis by blast
qed


subsection \<open>The clock\<close>





subsection \<open>Submission needs an attempt\<close>

lemma handle_without_attempt:
  assumes "enabled e s" "\<not> truthy_id (attemptId s)" "pending s = []" "\<not> creates_attempt e"
  shows "attemptId (handle e s) = attemptId s \<and> submitted (handle e s) = submitted s
     \<and> pending (handle e s) = []
     \<and> filter is_submit (outbox (handle e s)) = filter is_submit (outbox s)"
proof (cases e)
  case (SubmitAnswered p aid r)
  with assms show ?thesis by simp
next
  case (SubmitDetails d r)
  with assms show ?thesis by (cases r) (simp_all add: handler_defs Let_def)
next
  case (ExamLoaded r)
  with assms show ?thesis by (cases r) (simp_all add: handler_defs)
next
  case (ClickSubmit c)
  with assms show ?thesis by simp
qed (insert assms, simp_all add: handler_defs Let_def split: option.splits)

lemma step_without_attempt:
  assumes "\<not> truthy_id (attemptId s)" "\<not> timeOver s" "\<not> submitted s" "pending s = []"
    and "\<not> creates_attempt e"
  shows "\<not> truthy_id (attemptId (step e s)) \<and> \<not> timeOver (step e s) \<and> \<not> submitted (step e s)
     \<and> pending (step e s) = [] \<and> submits_sent (step e s) = submits_sent s"
proof (cases "enabled e s")
  case False
  with assms show ?thesis by (simp add: step_def)
next
  case True
  from handle_without_attempt [OF True assms(1,4,5)]
  have h: "attemptId (handle e s) = attemptId s" "submitted (handle e s) = submitted s"
    "pending (handle e s) = []"
    "filter is_submit (outbox (handle e s)) = filter is_submit (outbox s)" by simp_all
  from h(1) assms(1) have nd: "\<not> expiry_due (handle e s)" by (simp add: expiry_due_def)
  from True h nd assms show ?thesis
    by (simp add: step_def submits_sent_def run_effects_timeOver run_effects_outbox
          run_effects_pending autoSubmit_effect_outbox autoSubmit_effect_pending)
qed

lemma run_without_attempt:
  assumes "\<not> truthy_id (attemptId s)" "\<not> timeOver s" "\<not> submitted s" "pending s = []"
    and "\<forall>e\<in>set es. \<not> creates_attempt e"
  shows "\<not> truthy_id (attemptId (run es s)) \<and> \<not> timeOver (run es s) \<and> \<not> submitted (run es s)
     \<and> pending (run es s) = [] \<and> submits_sent (run es s) = submits_sent s"
  using assms
proof (induction es arbitrary: s)
  case Nil
  then show ?case by simp
next
  case (Cons e es)
  from Cons.prems have "\<not> creates_attempt e" by simp
  from step_without_attempt [OF Cons.prems(1-4) this] Cons.prems(5) Cons.IH [of "step e s"]
  show ?case by simp
qed

lemma handle_submit_needs_attempt:
  "filter is_submit (outbox (handle e s)) = filter is_submit (outbox s)
     \<or> truthy_id (attemptId (handle e s))"
proof (cases e)
  case (SubmitAnswered p aid r)
  then show ?thesis
    by (cases p; cases r) (simp_all add: handler_defs Let_def split: option.splits)
next
  case (SubmitDetails d r)
  then show ?thesis by (cases r) (simp_all add: handler_defs Let_def)
next
  case (ExamLoaded r)
  then show ?thesis by (cases r) (simp_all add: handler_defs)
qed (simp_all add: handler_defs Let_def split: option.splits)

lemma step_submit_needs_attempt:
  "submits_sent s < submits_sent (step e s) \<Longrightarrow> truthy_id (attemptId (step e s))"
proof (cases "enabled e s")
  case False
  assume "submits_sent s < submits_sent (step e s)"
  with False show ?thesis by (simp add: step_def)
next
  case True
  assume lt: "submits_sent s < submits_sent (step e s)"
  show ?thesis
  proof (cases "expiry_due (handle e s)")
    case True
    then show ?thesis using \<open>enabled e s\<close> by (simp add: step_def expiry_due_def)
  next
    case False
    with lt \<open>enabled e s\<close> handle_submit_needs_attempt [of e s] show ?thesis
      by (auto simp: step_def submits_sent_def run_effects_outbox autoSubmit_effect_outbox)
  qed
qed

lemma handleSubmit_without_attempt:
  "\<not> truthy_id (attemptId s) \<Longrightarrow> submits_sent (handleSubmit c s) = submits_sent s"
  by (simp add: handleSubmit_def submits_sent_def)

text \<open>
  C10: while the session has no attempt id (none was created, and no event of the
  sequence creates one), no submit request is sent, whatever happens, the countdown
  reaching zero included, and the session enters neither the time-over nor the
  submitted state; there \<open>handleSubmit\<close> sends nothing and the time-expiry effect does
  nothing. In general, whenever a step sends a submit request, timer-triggered or
  student-triggered, the session has a non-null attempt id.
\<close>

theorem submit_needs_attempt:
  assumes "\<not> truthy_id (attemptId s)" "\<not> timeOver s" "\<not> submitted s" "pending s = []"
    and "\<forall>e\<in>set es. \<not> creates_attempt e"
  shows "submits_sent (run es s) = submits_sent s
     \<and> \<not> timeOver (run es s) \<and> \<not> submitted (run es s)
     \<and> submits_sent (handleSubmit c (run es s)) = submits_sent s
     \<and> autoSubmit_effect (run es s) = run es s
     \<and> (\<forall>e' s'. submits_sent s' < submits_sent (step e' s') \<longrightarrow> truthy_id (attemptId (step e' s')))"
proof -
  from run_without_attempt [OF assms]
  have r: "\<not> truthy_id (attemptId (run es s))" "\<not> timeOver (run es s)"
    "\<not> submitted (run es s)" "submits_sent (run es s) = submits_sent s" by simp_all
  from r(1) have m: "submits_sent (handleSubmit c (run es s)) = submits_sent (run es s)"
    by (rule handleSubmit_without_attempt)
  from r(1) have a: "autoSubmit_effect (run es s) = run es s"
    by (simp add: autoSubmit_effect_def)
  from r m a step_submit_needs_attempt show ?thesis by simp
qed

theorem submit_needs_attempt_witness:
  "\<not> truthy_id (attemptId loaded_session) \<and> \<not> timeOver loaded_session
   \<and> \<not> submitted loaded_session \<and> pending loaded_session = []
   \<and> timeRemaining (run (replicate 60 Tick @ [ClickSubmit True, Tick]) loaded_session) = 0
   \<and> submits_sent (run (replicate 60 Tick @ [ClickSubmit True, Tick]) loaded_session) = 0
   \<and> \<not> timeOver (run (replicate 60 Tick @ [ClickSubmit True, Tick]) loaded_session)
   \<and> \<not> submitted (run (replicate 60 Tick @ [ClickSubmit True, Tick]) loaded_session)"
proof -
  let ?es = "replicate 60 Tick @ [ClickSubmit True, Tick]"
  have 1: "\<not> truthy_id (attemptId loaded_session)" by code_simp
  have 2: "\<not> timeOver loaded_session" by code_simp
  have 3: "\<not> submitted loaded_session" by code_simp
  have 4: "pending loaded_session = []" by code_simp
  have 5: "\<forall>e\<in>set ?es. \<not> creates_attempt e" by code_simp
  have 6: "timeRemaining (run ?es loaded_session) = 0" by code_simp
  have 7: "submits_sent loaded_session = 0" by code_simp
  from submit_needs_attempt [OF 1 2 3 4 5] 7
  have "submits_sent (run ?es loaded_session) = 0 \<and> \<not> timeOver (run ?es loaded_session)
     \<and> \<not> submitted (run ?es loaded_session)" by simp
  with 1 2 3 4 6 show ?thesis by blast
qed


subsection \<open>The clock of a session\<close>



lemma run_effects_loading [simp]: "loading (run_effects s0 s) = loading s"
  by (simp add: run_effects_def rerun_tracking_def rerun_exit_def rerun_start_def
        fullscreen_exit_effect_def exitFullscreen_def fullscreen_start_effect_def
        autoSubmit_effect_def split: option.splits)











subsection \<open>Fullscreen exits\<close>


lemma attempt_active_frame:
  "studentDetails t = studentDetails s \<Longrightarrow> attemptId t = attemptId s \<Longrightarrow> submitted t = submitted s
     \<Longrightarrow> timeOver t = timeOver s \<Longrightarrow> attempt_active t = attempt_active s"
  by (simp add: attempt_active_def)






















section \<open>Properties of the scoring\<close>

lemma score_slots_total:
  "total_score (score_slots slots r)
     = total_score r + sum_list (map (\<lambda>(q, sel). contribution q sel) slots)"
  by (induction slots r rule: score_slots.induct)
     (simp_all add: judge_def contribution_def split: option.splits)

lemma score_slots_correct:
  "correct (score_slots slots r)
     = correct r + length (filter (\<lambda>(q, sel). judge q sel = Correct) slots)"
  by (induction slots r rule: score_slots.induct) (simp_all split: verdict.splits)

lemma score_slots_wrong:
  "wrong (score_slots slots r)
     = wrong r + length (filter (\<lambda>(q, sel). judge q sel = Wrong) slots)"
  by (induction slots r rule: score_slots.induct) (simp_all split: verdict.splits)

lemma score_slots_not_attempted:
  "not_attempted (score_slots slots r)
     = not_attempted r + length (filter (\<lambda>(q, sel). judge q sel = NotAttempted) slots)"
  by (induction slots r rule: score_slots.induct) (simp_all split: verdict.splits)

text \<open>
  C4: the total score is the sum of the contributions of all questions, where a
  question contributes its marks when the selected option equals the answer key, minus
  its negative marks when a different option was selected, and 0 when no option was
  selected; the counts of correct, wrong and not attempted questions are the numbers
  of questions so judged. The exam of two questions with 4 marks and 1 negative mark
  each, answered correctly and wrongly, scores 3 with correct = 1, wrong = 1,
  not attempted = 0; a wrong answer and no answer score -1, so a total can be negative.
\<close>

theorem scoring_sums_contributions:
  "total_score (compute_result slots) = sum_list (map (\<lambda>(q, sel). contribution q sel) slots)
   \<and> contribution q (Some k) = (if k = correct_option q then marks q else - negative_marks q)
   \<and> contribution q None = 0
   \<and> correct (compute_result slots) = length (filter (\<lambda>(q, sel). judge q sel = Correct) slots)
   \<and> wrong (compute_result slots) = length (filter (\<lambda>(q, sel). judge q sel = Wrong) slots)
   \<and> not_attempted (compute_result slots)
       = length (filter (\<lambda>(q, sel). judge q sel = NotAttempted) slots)
   \<and> compute_result [(key_a, Some 2), (key_b, Some 1)]
       = \<lparr>total_score = 3, total_questions = 2, attempted = 2, correct = 1, wrong = 1,
          not_attempted = 0\<rparr>
   \<and> total_score (compute_result [(key_a, Some 1), (key_b, None)]) = - 1"
proof -
  have ex1: "compute_result [(key_a, Some 2), (key_b, Some 1)]
       = \<lparr>total_score = 3, total_questions = 2, attempted = 2, correct = 1, wrong = 1,
          not_attempted = 0\<rparr>" by code_simp
  have ex2: "total_score (compute_result [(key_a, Some 1), (key_b, None)]) = - 1" by code_simp
  have t: "total_score (compute_result slots)
             = sum_list (map (\<lambda>(q, sel). contribution q sel) slots)"
    by (simp add: compute_result_def score_slots_total)
  have c: "correct (compute_result slots)
             = length (filter (\<lambda>(q, sel). judge q sel = Correct) slots)"
    by (simp add: compute_result_def score_slots_correct)
  have w: "wrong (compute_result slots)
             = length (filter (\<lambda>(q, sel). judge q sel = Wrong) slots)"
    by (simp add: compute_result_def score_slots_wrong)
  have n: "not_attempted (compute_result slots)
             = length (filter (\<lambda>(q, sel). judge q sel = NotAttempted) slots)"
    by (simp add: compute_result_def score_slots_not_attempted)
  have k1: "contribution q (Some k)
             = (if k = correct_option q then marks q else - negative_marks q)"
    by (simp add: contribution_def)
  have k2: "contribution q None = 0" by (simp add: contribution_def)
  from t k1 k2 c w n ex1 ex2 show ?thesis by blast
qed

section \<open>Submission races\<close>

lemma handle_keeps_submitted: "submitted s \<Longrightarrow> submitted (handle e s)"
proof (cases e)
  case (SubmitAnswered p aid r)
  assume "submitted s"
  with SubmitAnswered show ?thesis
    by (cases p; cases r) (simp_all add: handler_defs Let_def split: option.splits)
next
  case (SubmitDetails d r)
  assume "submitted s"
  with SubmitDetails show ?thesis by (cases r) (simp_all add: handler_defs Let_def)
next
  case (ExamLoaded r)
  assume "submitted s"
  with ExamLoaded show ?thesis by (cases r) (simp_all add: handler_defs)
qed (simp_all add: handler_defs Let_def split: option.splits)

lemma handle_submits_when_submitted:
  "submitted s \<Longrightarrow> filter is_submit (outbox (handle e s)) = filter is_submit (outbox s)"
proof (cases e)
  case (SubmitAnswered p aid r)
  assume "submitted s"
  with SubmitAnswered show ?thesis
    by (cases p; cases r) (simp_all add: handler_defs Let_def split: option.splits)
next
  case (SubmitDetails d r)
  assume "submitted s"
  with SubmitDetails show ?thesis by (cases r) (simp_all add: handler_defs Let_def)
next
  case (ExamLoaded r)
  assume "submitted s"
  with ExamLoaded show ?thesis by (cases r) (simp_all add: handler_defs)
qed (simp_all add: handler_defs Let_def split: option.splits)

text \<open>Once the session is in the submitted state, no submit request is sent any more.\<close>

lemma step_after_submitted:
  assumes "submitted s"
  shows "submitted (step e s) \<and> submits_sent (step e s) = submits_sent s"
proof (cases "enabled e s")
  case False
  with assms show ?thesis by (simp add: step_def)
next
  case True
  from assms have 1: "submitted (handle e s)" by (rule handle_keeps_submitted)
  then have 2: "\<not> expiry_due (handle e s)" by (simp add: expiry_due_def)
  from assms have 3: "filter is_submit (outbox (handle e s)) = filter is_submit (outbox s)"
    by (rule handle_submits_when_submitted)
  from True 1 2 3 show ?thesis
    by (simp add: step_def submits_sent_def run_effects_outbox autoSubmit_effect_outbox)
qed

lemma no_submit_after_submitted:
  "submitted s \<Longrightarrow> submitted (run es s) \<and> submits_sent (run es s) = submits_sent s"
proof (induction es arbitrary: s)
  case Nil
  then show ?case by simp
next
  case (Cons e es)
  from step_after_submitted [OF Cons.prems, of e] Cons.IH [of "step e s"] show ?case by simp
qed

text \<open>The other order cannot happen: once time is over the Submit button is gone, and
  while a manual submission is in flight it is disabled.\<close>

lemma no_click_when_time_over_or_submitting:
  "timeOver s \<or> submitting s \<or> submitted s \<Longrightarrow> \<not> enabled (ClickSubmit c) s"
  by (auto simp: render_ExamScreen)

text \<open>
  C1 at the failing input: in the sample session the student confirms the submission
  one second before the end. \<open>handleSubmit\<close> has sent its submit request and waits for
  the answer, with \<open>submitting\<close> set and \<open>submitted\<close> not yet; the countdown goes on,
  reaches zero, and the time-expiry effect, whose guard reads \<open>submitted\<close> only, sends
  a second submit request for the same attempt.
\<close>

theorem manual_submit_races_expiry:
  "render (run (replicate 59 Tick) started_session) = ExamScreen
   \<and> timeRemaining (run (replicate 59 Tick) started_session) = 1
   \<and> enabled (ClickSubmit True) (run (replicate 59 Tick) started_session)
   \<and> filter is_submit (outbox (run (replicate 59 Tick @ [ClickSubmit True]) started_session))
       = [SubmitReq Manual 7 [\<lparr>question_id = 11, selected_option = None\<rparr>,
                              \<lparr>question_id = 12, selected_option = None\<rparr>]]
   \<and> submitting (run (replicate 59 Tick @ [ClickSubmit True]) started_session)
   \<and> \<not> submitted (run (replicate 59 Tick @ [ClickSubmit True]) started_session)
   \<and> filter is_submit (outbox (run (replicate 59 Tick @ [ClickSubmit True, Tick]) started_session))
       = [SubmitReq Manual 7 [\<lparr>question_id = 11, selected_option = None\<rparr>,
                              \<lparr>question_id = 12, selected_option = None\<rparr>],
          SubmitReq Auto 7 [\<lparr>question_id = 11, selected_option = None\<rparr>,
                            \<lparr>question_id = 12, selected_option = None\<rparr>]]
   \<and> submits_sent (run (replicate 59 Tick @ [ClickSubmit True, Tick]) started_session) = 2"
  by code_simp

section \<open>Starting the attempt\<close>

text \<open>A failed start leaves everything but the error message (and the request sent)
  as it was: no attempt id, no student details, no question state, no fullscreen.\<close>

lemma failed_start:
  assumes "\<not> creates_attempt (SubmitDetails d r)"
  shows "attemptId (handleStudentDetailsSubmit d r s) = attemptId s
     \<and> studentDetails (handleStudentDetailsSubmit d r s) = studentDetails s
     \<and> questionState (handleStudentDetailsSubmit d r s) = questionState s
     \<and> currentIndex (handleStudentDetailsSubmit d r s) = currentIndex s
     \<and> timeRemaining (handleStudentDetailsSubmit d r s) = timeRemaining s
     \<and> isFullscreen (handleStudentDetailsSubmit d r s) = isFullscreen s
     \<and> error (handleStudentDetailsSubmit d r s) \<noteq> None"
  using assms by (cases r) (simp_all add: handleStudentDetailsSubmit_def)

text \<open>
  C2 at the failing input: the exam is loaded and the student details form is shown;
  no attempt exists, yet the countdown is running, and it goes on after an attempt
  creation that fails. When the student sends the form after the duration has passed,
  the attempt is created and the time-expiry effect submits it at once, unanswered.
\<close>

theorem clock_runs_before_attempt:
  "render loaded_session = DetailsForm
   \<and> attemptId loaded_session = None
   \<and> timeRemaining loaded_session = 60
   \<and> attemptId (run [Tick] loaded_session) = None
   \<and> timeRemaining (run [Tick] loaded_session) = 59
   \<and> attemptId (run [Tick, SubmitDetails demo_student AttemptFetchFailed, Tick] loaded_session) = None
   \<and> timeRemaining (run [Tick, SubmitDetails demo_student AttemptFetchFailed, Tick] loaded_session) = 58
   \<and> timeOver (run (replicate 60 Tick @ [SubmitDetails demo_student (AttemptCreated (Some 7))])
                 loaded_session)
   \<and> filter is_submit
        (outbox (run (replicate 60 Tick @ [SubmitDetails demo_student (AttemptCreated (Some 7))])
                 loaded_session))
       = [SubmitReq Auto 7 [\<lparr>question_id = 11, selected_option = None\<rparr>,
                            \<lparr>question_id = 12, selected_option = None\<rparr>]]"
  by code_simp


end
